theory Spec2Isabelle
  imports Complex_Main
begin

section \<open>Values of the runtime\<close>

text \<open>
  The debugger is one JavaScript module, \<^verbatim>\<open>src/index.js\<close>. Its own code is the
  presentation functions (\<^verbatim>\<open>colorise\<close>, \<^verbatim>\<open>safeLog\<close>, \<^verbatim>\<open>discordColorise\<close>, ...), the start-up
  checks and the handlers it registers with the websocket server and the REPL. What those
  handlers call in the platform (\<^verbatim>\<open>JSON.parse\<close>, \<^verbatim>\<open>JSON.stringify\<close>, \<^verbatim>\<open>ws.send\<close>, the
  REPL's completion callback) is taken as a parameter of the model, in the record
  \<open>runtime\<close> below.

  Strings are lists of 8-bit characters (the code units below 256). A JavaScript number is the real number it
  denotes, or \<open>NaN\<close>, or one of the infinities: the program only compares numbers with the
  constants 0, 1, 2 and 3 and never computes with them.
\<close>

datatype jsnum = NaN | Num real | PosInfinity | NegInfinity

text \<open>The relational operator \<^verbatim>\<open><\<close> on numbers: every comparison with \<open>NaN\<close> is false.\<close>

fun js_less :: "jsnum \<Rightarrow> jsnum \<Rightarrow> bool" where
  "js_less (Num x) (Num y) = (x < y)"
| "js_less (Num x) PosInfinity = True"
| "js_less NegInfinity (Num y) = True"
| "js_less NegInfinity PosInfinity = True"
| "js_less _ _ = False"

datatype jserror =
    SyntaxError string
  | TypeError string
  | ReferenceError string
  | Error string

text \<open>
  What \<^verbatim>\<open>JSON.parse\<close> can return, and \<^verbatim>\<open>undefined\<close> for a property that is absent. An
  object is the list of its own properties.
\<close>

datatype jsval =
    JUndefined
  | JNull
  | JBool bool
  | JNum jsnum
  | JStr string
  | JArr "jsval list"
  | JObj "(string \<times> jsval) list"

text \<open>
  The table \<^verbatim>\<open>COLORS\<close>: \<^verbatim>\<open>colors.cyan\<close>, \<^verbatim>\<open>colors.yellow\<close>, \<^verbatim>\<open>colors.red\<close> for the client and
  \<^verbatim>\<open>colors.magenta.bold\<close>, \<^verbatim>\<open>colors.yellow.bold\<close>, \<^verbatim>\<open>colors.red.bold\<close> for the debugger.
\<close>

datatype colour = Cyan | Yellow | Red | MagentaBold | YellowBold | RedBold

datatype origin = client | debugger

datatype severity = info | warning | error

fun COLORS :: "origin \<Rightarrow> severity \<Rightarrow> colour" where
  "COLORS client info = Cyan"
| "COLORS client warning = Yellow"
| "COLORS client error = Red"
| "COLORS debugger info = MagentaBold"
| "COLORS debugger warning = YellowBold"
| "COLORS debugger error = RedBold"

text \<open>
  Text that is printed is kept as the term that built it: a string literal, a value or
  an error converted to a string by \<^verbatim>\<open>+\<close>, the result of a colour function, a
  concatenation. How \<^verbatim>\<open>ansi-colors\<close> encodes a colour is not part of the program.
\<close>

datatype jstext =
    Lit string
  | Val jsval
  | Shown jserror
  | Styled colour jstext
  | Cat jstext jstext

text \<open>
  The calls the program makes to its surroundings. \<open>output\<close> is what reaches the
  terminal; \<open>event\<close> adds the calls on the websocket, on the REPL and on a completion
  callback. A session records them in order.
\<close>

datatype "output" =
    ConsoleLog jstext
  | ConsoleError jserror
  | ReplWrite jstext
  | ReplError jserror
  | DisplayPrompt

text \<open>The three ways the program calls a completion callback: \<^verbatim>\<open>cb()\<close>, \<^verbatim>\<open>cb(e)\<close>, \<^verbatim>\<open>cb(null, data)\<close>.\<close>

datatype cbargs = NoArgs | Failed jserror | Result string

datatype 'cb event =
    Out "output"
  | WsSend string
  | CallCb 'cb cbargs
  | ReplStart
  | RlClose

text \<open>
  The variables of the program: the module's \<^verbatim>\<open>isPrompting\<close>, the connection handler's
  \<^verbatim>\<open>finishCallback\<close> (\<open>None\<close> is \<^verbatim>\<open>undefined\<close>), and with them the record of the
  calls made so far.
\<close>

record 'cb session =
  isPrompting :: bool
  finishCallback :: "'cb option"
  calls :: "'cb event list"

text \<open>
  A statement either completes or throws; what it did before throwing stays done.
\<close>

datatype 'cb outcome =
    Returns "'cb session"
  | Throws jserror "'cb session"

text \<open>
  The configuration computed at start-up (\<^verbatim>\<open>silentLvl\<close>, \<^verbatim>\<open>onConnectedCode\<close>) and the
  platform: \<^verbatim>\<open>JSON.parse\<close> returns a value or throws; \<^verbatim>\<open>JSON.stringify\<close> of a string; a
  completion callback, called with the arguments given while \<^verbatim>\<open>isPrompting\<close> has the given
  value, writes to the terminal and then returns or throws (it is the REPL's function: it
  has no access to \<^verbatim>\<open>finishCallback\<close> or to the websocket, and reads \<^verbatim>\<open>isPrompting\<close> only
  through \<^verbatim>\<open>writer\<close>); \<^verbatim>\<open>ws.send\<close> may throw, depending on the calls made before.
\<close>

record 'cb runtime =
  silentLvl :: jsnum
  onConnectedCode :: "string option"
  JSON_parse :: "string \<Rightarrow> jserror + jsval"
  JSON_stringify :: "string \<Rightarrow> string"
  callback :: "'cb \<Rightarrow> cbargs \<Rightarrow> bool \<Rightarrow> output list \<times> jserror option"
  send_fault :: "'cb event list \<Rightarrow> string \<Rightarrow> jserror option"

definition emit :: "output list \<Rightarrow> 'cb session \<Rightarrow> 'cb session" where
  "emit out s = s\<lparr>calls := calls s @ map Out out\<rparr>"

text \<open>Sequencing: the rest runs only when the first statement did not throw.\<close>

fun and_then :: "'cb outcome \<Rightarrow> ('cb session \<Rightarrow> 'cb outcome) \<Rightarrow> 'cb outcome" where
  "and_then (Returns s) k = k s"
| "and_then (Throws e s) k = Throws e s"

section \<open>Presentation\<close>

definition dq :: char where
  "dq = CHR 0x22"

definition newline :: string where
  "newline = [CHR 0x0A]"

text \<open>\<^verbatim>\<open>color(`[${source}] `) + message\<close>\<close>

definition colorise :: "jstext \<Rightarrow> string \<Rightarrow> colour \<Rightarrow> jstext" where
  "colorise message source color = Cat (Styled color (Lit (''['' @ source @ ''] ''))) message"

text \<open>\<^verbatim>\<open>console.log((isPrompting ? "\n" : "") + data)\<close>, given the value of \<^verbatim>\<open>isPrompting\<close>.\<close>

definition safeLog :: "bool \<Rightarrow> jstext \<Rightarrow> output" where
  "safeLog prompting data = ConsoleLog (Cat (Lit (if prompting then newline else [])) data)"

text \<open>
  \<^verbatim>\<open>let { message, level } = v\<close>: \<^verbatim>\<open>null\<close> and \<^verbatim>\<open>undefined\<close> cannot be destructured; an
  object gives its properties, \<^verbatim>\<open>undefined\<close> where it has none of that name; any other
  value has neither property.
\<close>

definition property :: "(string \<times> jsval) list \<Rightarrow> string \<Rightarrow> jsval" where
  "property kvs k = (case map_of kvs k of Some v \<Rightarrow> v | None \<Rightarrow> JUndefined)"

fun message_level :: "jsval \<Rightarrow> jserror + (jsval \<times> jsval)" where
  "message_level JNull = Inl (TypeError ''Cannot destructure null'')"
| "message_level JUndefined = Inl (TypeError ''Cannot destructure undefined'')"
| "message_level (JObj kvs) = Inr (property kvs ''message'', property kvs ''level'')"
| "message_level _ = Inr (JUndefined, JUndefined)"

text \<open>The \<^verbatim>\<open>switch (level)\<close> of \<^verbatim>\<open>discordColorise\<close>: cases 0, 2 and 3, compared with \<^verbatim>\<open>===\<close>.\<close>

definition level_colour :: "jsval \<Rightarrow> jsval \<Rightarrow> jstext" where
  "level_colour level message =
     (if level = JNum (Num 0) then Styled (COLORS client info) (Val message)
      else if level = JNum (Num 2) then Styled (COLORS client warning) (Val message)
      else if level = JNum (Num 3) then Styled (COLORS client error) (Val message)
      else Val message)"

definition discordColorise :: "(string \<Rightarrow> jserror + jsval) \<Rightarrow> string \<Rightarrow> jserror + jstext" where
  "discordColorise parse data =
     (case parse data of
        Inl e \<Rightarrow> Inl e
      | Inr v \<Rightarrow>
          (case message_level v of
             Inl e \<Rightarrow> Inl e
           | Inr (message, level) \<Rightarrow>
               Inr (colorise (level_colour level message) ''Vendetta'' (COLORS client info))))"

definition discordLog :: "'cb runtime \<Rightarrow> string \<Rightarrow> 'cb session \<Rightarrow> 'cb outcome" where
  "discordLog rt message s =
     (if silentLvl rt = Num 2 then Returns (emit [safeLog (isPrompting s) (Lit message)] s)
      else (case discordColorise (JSON_parse rt) message of
              Inl e \<Rightarrow> Throws e s
            | Inr t \<Rightarrow> Returns (emit [safeLog (isPrompting s) t] s)))"

definition debuggerColorise :: "jstext \<Rightarrow> jstext" where
  "debuggerColorise message = colorise message ''Debugger'' (COLORS debugger info)"

text \<open>
  \<^verbatim>\<open>safeLog(silentLvl === 2 ? messag : debuggerColorise(message))\<close>: no variable \<^verbatim>\<open>messag\<close>
  exists, so evaluating the first branch throws a ReferenceError.
\<close>

definition debuggerLog :: "'cb runtime \<Rightarrow> jstext \<Rightarrow> 'cb session \<Rightarrow> 'cb outcome" where
  "debuggerLog rt message s =
     (if silentLvl rt = Num 2 then Throws (ReferenceError ''messag is not defined'') s
      else Returns (emit [safeLog (isPrompting s) (debuggerColorise message)] s))"

definition debuggerWarning :: "bool \<Rightarrow> jstext \<Rightarrow> output" where
  "debuggerWarning prompting message =
     safeLog prompting (colorise message ''Debugger'' (COLORS debugger warning))"

text \<open>
  \<^verbatim>\<open>debuggerError(error, isReturning)\<close>: what it prints and what it returns (\<open>None\<close> is
  \<^verbatim>\<open>undefined\<close>).
\<close>

definition debuggerError :: "jserror \<Rightarrow> bool \<Rightarrow> bool \<Rightarrow> output list \<times> jserror option" where
  "debuggerError err isReturning prompting =
     (let banner = safeLog prompting (colorise (Lit ''Error'') ''Debugger'' (COLORS debugger error))
      in if isReturning then ([banner], Some err)
         else ([banner, ConsoleError err], None))"

section \<open>Start-up\<close>

text \<open>
  \<^verbatim>\<open>silentLvl\<close> is \<^verbatim>\<open>Number(args.values.silent)\<close>; the two checks that follow throw, which
  ends the program before the server is created.
\<close>

definition check_silentLvl :: "jsnum \<Rightarrow> jserror + jsnum" where
  "check_silentLvl n =
     (if n = NaN then
        Inl (Error (''The option '' @ [dq] @ ''silent'' @ [dq] @ '' should be a number.''))
      else if js_less (Num 2) n \<or> js_less n (Num 0) then
        Inl (Error (''The option '' @ [dq] @ ''silent'' @ [dq] @ '' should in range 0-2.''))
      else Inr n)"

definition welcome_text :: string where
  "welcome_text =
     ''Welcome to the unofficial Vendetta debugger.'' @ newline @
     ''Press Ctrl+C to exit.'' @ newline @
     ''How to connect to the debugger: https://github.com/Meqativ/vendetta-debug/blob/master/README.md#connecting''"

text \<open>\<^verbatim>\<open>if (silentLvl < 1) console.log(...)\<close>\<close>

definition welcome_banner :: "jsnum \<Rightarrow> output list" where
  "welcome_banner n = (if js_less n (Num 1) then [ConsoleLog (Lit welcome_text)] else [])"

text \<open>
  Reading the on-connect file. \<open>files\<close> gives the contents of a readable file and
  \<open>None\<close> for a path that cannot be read, where the program exits. \<^verbatim>\<open>isPrompting\<close> is
  still false when the warning is printed.
\<close>

datatype loaded = Exits | Loaded "string option" "output list"

definition load_onConnectedCode :: "string option \<Rightarrow> (string \<Rightarrow> string option) \<Rightarrow> loaded" where
  "load_onConnectedCode onConnectedPath files =
     (case onConnectedPath of
        None \<Rightarrow> Loaded None []
      | Some path \<Rightarrow>
          if path = [] then Loaded None []
          else (case files path of
                  None \<Rightarrow> Exits
                | Some code \<Rightarrow>
                    Loaded (Some code)
                      (if code = [] then
                         [debuggerWarning False
                            (Lit (''The file in '' @ [dq] @ ''onConnectedPath'' @ [dq] @ '' is empty''))]
                       else [])))"

section \<open>The session\<close>

text \<open>\<^verbatim>\<open>ws.send(payload)\<close>: the call is recorded, then it returns or throws.\<close>

definition ws_send :: "'cb runtime \<Rightarrow> string \<Rightarrow> 'cb session \<Rightarrow> 'cb outcome" where
  "ws_send rt payload s =
     (let s' = s\<lparr>calls := calls s @ [WsSend payload]\<rparr>
      in case send_fault rt (calls s) payload of
           None \<Rightarrow> Returns s'
         | Some e \<Rightarrow> Throws e s')"

text \<open>
  Calling a completion callback: the call is recorded, what the callback prints is
  recorded after it, and the call returns or throws as the callback does.
\<close>

definition call_cb :: "'cb runtime \<Rightarrow> 'cb \<Rightarrow> cbargs \<Rightarrow> 'cb session \<Rightarrow> 'cb outcome" where
  "call_cb rt cb args s =
     (let s' = s\<lparr>calls := calls s @ [CallCb cb args]\<rparr>
      in case callback rt cb args (isPrompting s) of
           (out, None) \<Rightarrow> Returns (emit out s')
         | (out, Some e) \<Rightarrow> Throws e (emit out s'))"

text \<open>
  The handler of the websocket's \<^verbatim>\<open>message\<close> event. \<open>attempt\<close> is the body of the
  \<^verbatim>\<open>try\<close>, the \<^verbatim>\<open>case\<close> after it is the \<^verbatim>\<open>catch\<close>, and the last line is the two statements
  that follow the \<^verbatim>\<open>try\<close>.
\<close>

definition ws_on_message :: "'cb runtime \<Rightarrow> string \<Rightarrow> 'cb session \<Rightarrow> 'cb session" where
  "ws_on_message rt data s =
     (let attempt =
            (case finishCallback s of
               Some cb \<Rightarrow>
                 and_then (call_cb rt cb (Result data) s)
                   (\<lambda>s'. Returns (s'\<lparr>finishCallback := None\<rparr>))
             | None \<Rightarrow> discordLog rt data s);
          s1 = (case attempt of
                  Returns s' \<Rightarrow> s'
                | Throws e s' \<Rightarrow> emit (fst (debuggerError e False (isPrompting s'))) s')
      in emit [DisplayPrompt] (s1\<lparr>isPrompting := True\<rparr>))"

text \<open>
  \<^verbatim>\<open>String.prototype.trim\<close> removes white space and line terminators from both ends; these
  are the ones among the 8-bit characters.
\<close>

definition js_space :: "char \<Rightarrow> bool" where
  "js_space c =
     (c \<in> set [CHR 0x09, CHR 0x0A, CHR 0x0B, CHR 0x0C, CHR 0x0D, CHR 0x20, CHR 0xA0])"

definition trim :: "string \<Rightarrow> string" where
  "trim input = rev (dropWhile js_space (rev (dropWhile js_space input)))"

text \<open>The request sent for a line of input.\<close>

definition wire :: "(string \<Rightarrow> string) \<Rightarrow> string \<Rightarrow> string" where
  "wire stringify input =
     ''const res=(0, eval)('' @ stringify input @
     '');let out=vendetta.metro.findByProps('' @ [dq] @ ''inspect'' @ [dq] @
     '').inspect(res,{showHidden:true});if(out!=='' @ [dq] @ ''undefined'' @ [dq] @
     '')console.log(out);res''"

text \<open>
  The REPL's \<^verbatim>\<open>eval\<close> option, called by the REPL with a line of input and the completion
  callback \<open>cb\<close> of that line. \<^verbatim>\<open>!input.trim()\<close> holds when the trimmed input is the empty
  string. An exception in the \<^verbatim>\<open>try\<close> is passed to \<^verbatim>\<open>cb(e)\<close>.
\<close>

definition repl_eval :: "'cb runtime \<Rightarrow> string \<Rightarrow> 'cb \<Rightarrow> 'cb session \<Rightarrow> 'cb outcome" where
  "repl_eval rt input cb s =
     (let attempt =
            (if trim input = [] then call_cb rt cb NoArgs s
             else and_then (ws_send rt (wire (JSON_stringify rt) input) (s\<lparr>isPrompting := False\<rparr>))
                    (\<lambda>s'. Returns (s'\<lparr>finishCallback := Some cb\<rparr>)))
      in case attempt of
           Returns s' \<Rightarrow> Returns s'
         | Throws e s' \<Rightarrow> call_cb rt cb (Failed e) s')"

text \<open>
  The REPL's \<^verbatim>\<open>writer\<close> option: what it prints, and the value it returns (an error object
  or a string) unless it throws.
\<close>

datatype payload = ErrorValue jserror | Data string

definition writer :: "(string \<Rightarrow> jserror + jsval) \<Rightarrow> bool \<Rightarrow> payload \<Rightarrow> output list \<times> (jserror + jstext)" where
  "writer parse prompting data =
     (case data of
        ErrorValue e \<Rightarrow>
          (case debuggerError e True prompting of
             (out, Some r) \<Rightarrow> (out, Inr (Shown r))
           | (out, None) \<Rightarrow> (out, Inr (Val JUndefined)))
      | Data d \<Rightarrow> ([], discordColorise parse d))"

text \<open>
  The handlers of the server's \<^verbatim>\<open>listening\<close> event, of the REPL's \<^verbatim>\<open>close\<close> event and of
  the websocket's \<^verbatim>\<open>close\<close> event.
\<close>

definition wss_on_listening :: "'cb runtime \<Rightarrow> jsnum \<Rightarrow> 'cb session \<Rightarrow> 'cb outcome" where
  "wss_on_listening rt port s =
     (if js_less (silentLvl rt) (Num 2) then
        debuggerLog rt (Cat (Lit ''Listening for connections on port '') (Val (JNum port))) s
      else Returns s)"

definition rl_on_close :: "'cb runtime \<Rightarrow> 'cb session \<Rightarrow> 'cb outcome" where
  "rl_on_close rt s =
     (if js_less (silentLvl rt) (Num 2) then
        debuggerLog rt (Lit ''Closing debugger, press Ctrl+C to exit'') s
      else Returns s)"

definition ws_on_close :: "'cb runtime \<Rightarrow> 'cb session \<Rightarrow> 'cb outcome" where
  "ws_on_close rt s =
     and_then
       (if js_less (silentLvl rt) (Num 2) then
          debuggerLog rt (Lit ''Websocket has been closed'') s
        else Returns s)
       (\<lambda>s1. let s2 = s1\<lparr>isPrompting := False\<rparr>
             in Returns (s2\<lparr>calls := calls s2 @ [RlClose]\<rparr>))"

text \<open>
  The handler of the server's \<^verbatim>\<open>connection\<close> event. It declares \<^verbatim>\<open>finishCallback\<close>, starts
  the REPL, registers the handlers above and sends the on-connect code when that is a
  non-empty string.
\<close>

definition wss_on_connection :: "'cb runtime \<Rightarrow> 'cb session \<Rightarrow> 'cb outcome" where
  "wss_on_connection rt s =
     and_then
       (if js_less (silentLvl rt) (Num 2) then
          debuggerLog rt (Lit ''Connected to Discord over websocket, starting debug session'') s
        else Returns s)
       (\<lambda>s1. let s2 = s1\<lparr>isPrompting := False, finishCallback := None\<rparr>;
                 s3 = s2\<lparr>calls := calls s2 @ [ReplStart]\<rparr>;
                 s4 = s3\<lparr>isPrompting := True\<rparr>
             in case onConnectedCode rt of
                  None \<Rightarrow> Returns s4
                | Some code \<Rightarrow> if code = [] then Returns s4 else ws_send rt code s4)"

section \<open>Events of one connection\<close>

text \<open>
  After the connection handler has run, the event loop delivers, one at a time: a line
  of input, which the REPL passes to \<^verbatim>\<open>eval\<close> with a completion callback; a message of the
  peer; the close of the websocket; the close of the REPL. An exception that leaves a
  handler ends the run.
\<close>

datatype 'cb inbound = Line string 'cb | Message string | SocketClose | PromptClose

fun step :: "'cb runtime \<Rightarrow> 'cb inbound \<Rightarrow> 'cb session \<Rightarrow> 'cb outcome" where
  "step rt (Line input cb) s = repl_eval rt input cb s"
| "step rt (Message data) s = Returns (ws_on_message rt data s)"
| "step rt SocketClose s = ws_on_close rt s"
| "step rt PromptClose s = rl_on_close rt s"

fun run :: "'cb runtime \<Rightarrow> 'cb inbound list \<Rightarrow> 'cb session \<Rightarrow> 'cb outcome" where
  "run rt [] s = Returns s"
| "run rt (ev # evs) s = and_then (step rt ev s) (run rt evs)"

text \<open>The state of the program before any connection.\<close>

definition initial :: "'cb session" where
  "initial = \<lparr>isPrompting = False, finishCallback = None, calls = []\<rparr>"

section \<open>The completion callback of the REPL\<close>

text \<open>
  The callback that Node's REPL passes to \<^verbatim>\<open>eval\<close>, as its documentation describes it:
  called without arguments it redraws the prompt; called with an error it formats the
  error with \<^verbatim>\<open>writer\<close>, which prints the debugger's error banner, reports the error
  and redraws the prompt; called with a result it writes \<^verbatim>\<open>writer(result) + "\n"\<close>
  and redraws the prompt, and an exception of \<^verbatim>\<open>writer\<close> leaves it before anything is
  written. It is one instance of \<open>callback\<close>; the callbacks are told apart by a number.
\<close>

definition repl_finish :: "(string \<Rightarrow> jserror + jsval) \<Rightarrow> nat \<Rightarrow> cbargs \<Rightarrow> bool \<Rightarrow> output list \<times> jserror option" where
  "repl_finish parse cb args prompting =
     (case args of
        NoArgs \<Rightarrow> ([DisplayPrompt], None)
      | Failed e \<Rightarrow>
          (case writer parse prompting (ErrorValue e) of
             (out, Inl x) \<Rightarrow> (out, Some x)
           | (out, Inr t) \<Rightarrow> (out @ [ReplError e, DisplayPrompt], None))
      | Result d \<Rightarrow>
          (case writer parse prompting (Data d) of
             (out, Inl e) \<Rightarrow> (out, Some e)
           | (out, Inr t) \<Rightarrow> (out @ [ReplWrite (Cat t (Lit newline)), DisplayPrompt], None)))"

text \<open>
  A \<^verbatim>\<open>JSON.parse\<close> that knows the texts of a table and throws a SyntaxError on any other
  text, for running the program on concrete messages.
\<close>

definition parse_table :: "(string \<times> jsval) list \<Rightarrow> string \<Rightarrow> jserror + jsval" where
  "parse_table tbl data =
     (case map_of tbl data of
        Some v \<Rightarrow> Inr v
      | None \<Rightarrow> Inl (SyntaxError ''Unexpected token''))"

text \<open>
  \<^verbatim>\<open>JSON.stringify\<close> of a string that has no character to escape puts it between double
  quotes.
\<close>

definition stringify_plain :: "string \<Rightarrow> string" where
  "stringify_plain x = [dq] @ x @ [dq]"

text \<open>
  A runtime for running the program: the REPL's callback, the table parser, and the
  websocket of an accepted connection, whose \<^verbatim>\<open>send\<close> does not throw.
\<close>

definition node_runtime :: "jsnum \<Rightarrow> string option \<Rightarrow> (string \<times> jsval) list \<Rightarrow> nat runtime" where
  "node_runtime lvl code tbl =
     \<lparr>silentLvl = lvl,
      onConnectedCode = code,
      JSON_parse = parse_table tbl,
      JSON_stringify = stringify_plain,
      callback = repl_finish (parse_table tbl),
      send_fault = (\<lambda>cs payload. None)\<rparr>"

text \<open>The text \<^verbatim>\<open>{"message":"x","level":3}\<close> and the object it denotes.\<close>

definition envelope_text :: string where
  "envelope_text =
     ''{'' @ [dq] @ ''message'' @ [dq] @ '':'' @ [dq] @ ''x'' @ [dq] @ '','' @
     [dq] @ ''level'' @ [dq] @ '':3}''"

definition envelope_value :: jsval where
  "envelope_value = JObj [(''message'', JStr ''x''), (''level'', JNum (Num 3))]"

section \<open>Reading an outcome and a record of calls\<close>

fun state_of :: "'cb outcome \<Rightarrow> 'cb session" where
  "state_of (Returns s) = s"
| "state_of (Throws e s) = s"

fun thrown :: "'cb outcome \<Rightarrow> jserror option" where
  "thrown (Returns s) = None"
| "thrown (Throws e s) = Some e"

text \<open>The payloads passed to \<^verbatim>\<open>ws.send\<close>, and the calls of completion callbacks, in order.\<close>

fun ws_sends :: "'cb event list \<Rightarrow> string list" where
  "ws_sends [] = []"
| "ws_sends (WsSend payload # evs) = payload # ws_sends evs"
| "ws_sends (_ # evs) = ws_sends evs"

fun cb_calls :: "'cb event list \<Rightarrow> ('cb \<times> cbargs) list" where
  "cb_calls [] = []"
| "cb_calls (CallCb cb args # evs) = (cb, args) # cb_calls evs"
| "cb_calls (_ # evs) = cb_calls evs"

text \<open>One connection: the connection handler, then the events that follow.\<close>

definition connection :: "'cb runtime \<Rightarrow> 'cb inbound list \<Rightarrow> 'cb outcome" where
  "connection rt evs = and_then (wss_on_connection rt initial) (run rt evs)"

section \<open>Facts used more than once\<close>

lemma guard_not_two: "js_less n (Num 2) \<Longrightarrow> n \<noteq> Num 2"
  by (cases n) auto

lemma debuggerLog_under_guard:
  "js_less (silentLvl rt) (Num 2) \<Longrightarrow>
     debuggerLog rt m s = Returns (emit [safeLog (isPrompting s) (debuggerColorise m)] s)"
  using guard_not_two by (simp add: debuggerLog_def)

lemma ws_sends_append: "ws_sends (xs @ ys) = ws_sends xs @ ws_sends ys"
  by (induction xs rule: ws_sends.induct) simp_all

lemma ws_sends_Out: "ws_sends (map Out out) = []"
  by (induction out) simp_all

lemma cb_calls_append: "cb_calls (xs @ ys) = cb_calls xs @ cb_calls ys"
  by (induction xs rule: cb_calls.induct) simp_all

lemma cb_calls_Out: "cb_calls (map Out out) = []"
  by (induction out) simp_all

text \<open>The trimmed input is empty exactly when every character of the input is white space.\<close>

lemma trim_empty: "(trim input = []) = (\<forall>c \<in> set input. js_space c)"
proof
  assume t: "trim input = []"
  show "\<forall>c \<in> set input. js_space c"
  proof (rule ccontr)
    assume "\<not> (\<forall>c \<in> set input. js_space c)"
    then have ne: "dropWhile js_space input \<noteq> []" by simp
    then have "\<not> js_space (hd (dropWhile js_space input))" by (rule hd_dropWhile)
    moreover have "hd (dropWhile js_space input) \<in> set (rev (dropWhile js_space input))"
      using ne by simp
    ultimately have "dropWhile js_space (rev (dropWhile js_space input)) \<noteq> []"
      by auto
    then show False using t by (simp add: trim_def)
  qed
next
  assume "\<forall>c \<in> set input. js_space c"
  then have d: "dropWhile js_space input = []" by simp
  show "trim input = []" unfolding trim_def d by simp
qed

text \<open>What each statement adds to the record of calls, and what it leaves as it was.\<close>

lemma call_cb_effect:
  "\<exists>out. calls (state_of (call_cb rt cb args s)) = calls s @ CallCb cb args # map Out out
        \<and> finishCallback (state_of (call_cb rt cb args s)) = finishCallback s
        \<and> isPrompting (state_of (call_cb rt cb args s)) = isPrompting s"
  by (cases "callback rt cb args (isPrompting s)")
     (auto simp add: call_cb_def emit_def Let_def split: option.splits)

lemma call_cb_extends: "\<exists>ext. calls (state_of (call_cb rt cb args s)) = calls s @ ext"
  using call_cb_effect [of rt cb args s] by blast

lemma ws_send_effect:
  "calls (state_of (ws_send rt payload s)) = calls s @ [WsSend payload]
   \<and> finishCallback (state_of (ws_send rt payload s)) = finishCallback s
   \<and> isPrompting (state_of (ws_send rt payload s)) = isPrompting s"
  by (simp add: ws_send_def Let_def split: option.splits)

lemma repl_eval_extends: "\<exists>ext. calls (state_of (repl_eval rt input cb s)) = calls s @ ext"
proof (cases "trim input = []")
  case True
  show ?thesis
  proof (cases "call_cb rt cb NoArgs s")
    case (Returns s1)
    then show ?thesis using call_cb_extends [of rt cb NoArgs s] True
      by (simp add: repl_eval_def)
  next
    case (Throws e s1)
    then show ?thesis
      using call_cb_extends [of rt cb NoArgs s] call_cb_extends [of rt cb "Failed e" s1] True
      by (auto simp add: repl_eval_def)
  qed
next
  case False
  let ?w = "wire (JSON_stringify rt) input"
  let ?pending = "s\<lparr>isPrompting := False\<rparr>"
  show ?thesis
  proof (cases "ws_send rt ?w ?pending")
    case (Returns s1)
    then show ?thesis using ws_send_effect [of rt ?w ?pending] False
      by (simp add: repl_eval_def)
  next
    case (Throws e s1)
    then show ?thesis
      using ws_send_effect [of rt ?w ?pending] call_cb_extends [of rt cb "Failed e" s1] False
      by (auto simp add: repl_eval_def)
  qed
qed

lemma discordLog_effect:
  "\<exists>out. calls (state_of (discordLog rt data s)) = calls s @ map Out out
      \<and> finishCallback (state_of (discordLog rt data s)) = finishCallback s
      \<and> isPrompting (state_of (discordLog rt data s)) = isPrompting s"
proof (cases "silentLvl rt = Num 2")
  case True
  then show ?thesis
    by (intro exI [where x = "[safeLog (isPrompting s) (Lit data)]"])
       (simp add: discordLog_def emit_def)
next
  case False
  show ?thesis
  proof (cases "discordColorise (JSON_parse rt) data")
    case (Inl e)
    then show ?thesis using False
      by (intro exI [where x = "[]"]) (simp add: discordLog_def)
  next
    case (Inr t)
    then show ?thesis using False
      by (intro exI [where x = "[safeLog (isPrompting s) t]"]) (simp add: discordLog_def emit_def)
  qed
qed

lemma ws_on_message_extends: "\<exists>ext. calls (ws_on_message rt data s) = calls s @ ext"
proof (cases "finishCallback s")
  case None
  then show ?thesis
    using discordLog_effect [of rt data s]
    by (cases "discordLog rt data s") (auto simp add: ws_on_message_def emit_def Let_def)
next
  case (Some cb)
  then show ?thesis
    using call_cb_extends [of rt cb "Result data" s]
    by (cases "call_cb rt cb (Result data) s") (auto simp add: ws_on_message_def emit_def Let_def)
qed

lemma guarded_log_effect:
  "\<exists>out s'. (if js_less (silentLvl rt) (Num 2) then debuggerLog rt m s else Returns s) = Returns s'
      \<and> calls s' = calls s @ map Out out
      \<and> finishCallback s' = finishCallback s \<and> isPrompting s' = isPrompting s"
proof (cases "js_less (silentLvl rt) (Num 2)")
  case True
  then show ?thesis
    by (intro exI [where x = "[safeLog (isPrompting s) (debuggerColorise m)]"])
       (simp add: debuggerLog_under_guard emit_def)
next
  case False
  then show ?thesis
    by (intro exI [where x = "[]"]) simp
qed

lemma ws_on_close_effect:
  "\<exists>notice s'. ws_on_close rt s = Returns s'
      \<and> calls s' = calls s @ map Out notice @ [RlClose]
      \<and> finishCallback s' = finishCallback s \<and> \<not> isPrompting s'"
proof -
  obtain out s1 where g:
    "(if js_less (silentLvl rt) (Num 2) then debuggerLog rt (Lit ''Websocket has been closed'') s
      else Returns s) = Returns s1"
    "calls s1 = calls s @ map Out out" "finishCallback s1 = finishCallback s"
    using guarded_log_effect [of rt "Lit ''Websocket has been closed''" s] by blast
  let ?s' = "s1\<lparr>isPrompting := False, calls := calls s1 @ [RlClose]\<rparr>"
  have "ws_on_close rt s = Returns ?s'"
    unfolding ws_on_close_def g(1) by (simp add: Let_def)
  then have "ws_on_close rt s = Returns ?s'
      \<and> calls ?s' = calls s @ map Out out @ [RlClose]
      \<and> finishCallback ?s' = finishCallback s \<and> \<not> isPrompting ?s'"
    using g(2,3) by simp
  then show ?thesis by blast
qed

lemma rl_on_close_effect:
  "\<exists>notice s'. rl_on_close rt s = Returns s'
      \<and> calls s' = calls s @ map Out notice
      \<and> finishCallback s' = finishCallback s \<and> isPrompting s' = isPrompting s"
  unfolding rl_on_close_def
  using guarded_log_effect [of rt "Lit ''Closing debugger, press Ctrl+C to exit''" s] by blast

text \<open>Nothing is ever removed from the record of calls.\<close>

lemma step_extends: "\<exists>ext. calls (state_of (step rt ev s)) = calls s @ ext"
proof (cases ev)
  case (Line input cb)
  then show ?thesis using repl_eval_extends [of rt input cb s] by simp
next
  case (Message data)
  then show ?thesis using ws_on_message_extends [of rt data s] by simp
next
  case SocketClose
  then show ?thesis using ws_on_close_effect [of rt s] by auto
next
  case PromptClose
  then show ?thesis using rl_on_close_effect [of rt s] by auto
qed

lemma run_extends: "\<exists>ext. calls (state_of (run rt evs s)) = calls s @ ext"
proof (induction evs arbitrary: s)
  case Nil
  then show ?case by simp
next
  case (Cons ev evs)
  obtain ext1 where e1: "calls (state_of (step rt ev s)) = calls s @ ext1"
    using step_extends by blast
  show ?case
  proof (cases "step rt ev s")
    case (Returns s1)
    obtain ext2 where "calls (state_of (run rt evs s1)) = calls s1 @ ext2"
      using Cons.IH by blast
    then show ?thesis using Returns e1 by simp
  next
    case (Throws e s1)
    then show ?thesis using e1 by simp
  qed
qed

lemma run_append: "run rt (xs @ ys) s = and_then (run rt xs s) (run rt ys)"
proof (induction xs arbitrary: s)
  case Nil
  then show ?case by simp
next
  case (Cons ev xs)
  then show ?case by (cases "step rt ev s") simp_all
qed

lemma connection_then:
  assumes "connection rt evs = Returns s"
  shows "connection rt (evs @ later) = run rt later s"
proof (cases "wss_on_connection rt initial")
  case (Returns s0)
  then show ?thesis using assms by (simp add: connection_def run_append)
next
  case (Throws e s0)
  then show ?thesis using assms by (simp add: connection_def)
qed

text \<open>
  A line of input that is not blank, on a websocket that accepts it: the prompt is
  suspended, the request is sent and the callback of the line becomes the pending one.
\<close>

lemma line_sent:
  "connection (node_runtime (Num 2) None tbl) [Line ''1+1'' 0] =
     Returns \<lparr>isPrompting = False, finishCallback = Some 0,
              calls = [ReplStart, WsSend (wire stringify_plain ''1+1'')]\<rparr>"
  by (simp add: connection_def wss_on_connection_def node_runtime_def initial_def Let_def
      repl_eval_def trim_def js_space_def ws_send_def)

text \<open>
  A message that arrives while a callback is pending is passed to that callback, once,
  whether the callback returns or throws; the slot is cleared when it returns.
\<close>

lemma pending_delivered_once:
  assumes "finishCallback s = Some cb"
  shows "cb_calls (calls (ws_on_message rt data s)) = cb_calls (calls s) @ [(cb, Result data)]"
proof (cases "callback rt cb (Result data) (isPrompting s)")
  case (Pair out thrown)
  then show ?thesis using assms
    by (cases thrown)
       (simp_all add: ws_on_message_def call_cb_def emit_def Let_def debuggerError_def
          cb_calls_append cb_calls_Out)
qed

lemma reply_returns:
  assumes "finishCallback s = Some cb"
    and "callback rt cb (Result data) (isPrompting s) = (out, None)"
  shows "ws_on_message rt data s =
           \<lparr>isPrompting = True, finishCallback = None,
            calls = calls s @ CallCb cb (Result data) # map Out (out @ [DisplayPrompt])\<rparr>"
  using assms by (simp add: ws_on_message_def call_cb_def emit_def Let_def)

section \<open>Verbosity\<close>

text \<open>
  C10. Every call of \<open>debuggerLog\<close> stands under the guard \<^verbatim>\<open>silentLvl < 2\<close>. Under that
  guard \<open>debuggerLog\<close> prints and returns; its other branch, taken when \<^verbatim>\<open>silentLvl === 2\<close>,
  throws a ReferenceError. So, whatever the level, the handlers of \<^verbatim>\<open>listening\<close>, of the
  REPL's \<^verbatim>\<open>close\<close> and of the websocket's \<^verbatim>\<open>close\<close> never throw, and the connection handler
  throws only what \<^verbatim>\<open>ws.send\<close> throws.
\<close>

theorem debuggerLog_guarded:
  "(js_less (silentLvl rt) (Num 2) \<longrightarrow>
      debuggerLog rt m s = Returns (emit [safeLog (isPrompting s) (debuggerColorise m)] s))
   \<and> (silentLvl rt = Num 2 \<longrightarrow>
        thrown (debuggerLog rt m s) = Some (ReferenceError ''messag is not defined''))
   \<and> thrown (wss_on_listening rt port s) = None
   \<and> thrown (rl_on_close rt s) = None
   \<and> thrown (ws_on_close rt s) = None
   \<and> (thrown (wss_on_connection rt s) = None \<or>
        (\<exists>code cs. onConnectedCode rt = Some code \<and>
           thrown (wss_on_connection rt s) = send_fault rt cs code))"
proof -
  have c1: "js_less (silentLvl rt) (Num 2) \<longrightarrow>
      debuggerLog rt m s = Returns (emit [safeLog (isPrompting s) (debuggerColorise m)] s)"
    using debuggerLog_under_guard by blast
  have c2: "silentLvl rt = Num 2 \<longrightarrow>
      thrown (debuggerLog rt m s) = Some (ReferenceError ''messag is not defined'')"
    by (simp add: debuggerLog_def)
  have c3: "thrown (wss_on_listening rt port s) = None"
    by (cases "js_less (silentLvl rt) (Num 2)")
       (simp_all add: wss_on_listening_def debuggerLog_under_guard)
  have c4: "thrown (rl_on_close rt s) = None"
    by (cases "js_less (silentLvl rt) (Num 2)")
       (simp_all add: rl_on_close_def debuggerLog_under_guard)
  have c5: "thrown (ws_on_close rt s) = None"
    by (cases "js_less (silentLvl rt) (Num 2)")
       (simp_all add: ws_on_close_def debuggerLog_under_guard Let_def)
  have c6: "thrown (wss_on_connection rt s) = None \<or>
        (\<exists>code cs. onConnectedCode rt = Some code \<and>
           thrown (wss_on_connection rt s) = send_fault rt cs code)"
    by (cases "js_less (silentLvl rt) (Num 2)")
       (auto simp add: wss_on_connection_def debuggerLog_under_guard Let_def ws_send_def
          split: option.splits intro: sym)
  show ?thesis using c1 c2 c3 c4 c5 c6 by blast
qed

text \<open>
  C10, at level 1 and at level 2: at level 1 the notice of the close handler is printed,
  at level 2 a direct call of \<open>debuggerLog\<close> throws and no handler does.
\<close>

theorem debuggerLog_guarded_witness:
  "js_less (Num 1) (Num 2)
   \<and> debuggerLog (node_runtime (Num 1) None []) (Lit ''Websocket has been closed'') initial =
       Returns (emit [safeLog False (debuggerColorise (Lit ''Websocket has been closed''))] initial)
   \<and> thrown (debuggerLog (node_runtime (Num 2) None []) (Lit ''Websocket has been closed'') initial)
       = Some (ReferenceError ''messag is not defined'')
   \<and> thrown (ws_on_close (node_runtime (Num 2) None []) initial) = None
   \<and> thrown (wss_on_connection (node_runtime (Num 2) None []) initial) = None"
  using debuggerLog_guarded [where rt = "node_runtime (Num 1) None []"
       and m = "Lit ''Websocket has been closed''" and s = initial]
    debuggerLog_guarded [where rt = "node_runtime (Num 2) None []"
       and m = "Lit ''Websocket has been closed''" and s = initial]
  by (simp add: node_runtime_def initial_def)

text \<open>
  C9 fails as stated: a level of one half passes the start-up checks, which ask only for
  a number from 0 to 2, and the banner is printed although the level is not 0.
\<close>

theorem banner_counterexample:
  "check_silentLvl (Num (1/2)) = Inr (Num (1/2))
   \<and> welcome_banner (Num (1/2)) = [ConsoleLog (Lit welcome_text)]
   \<and> Num (1/2) \<noteq> Num 0"
  by (simp add: check_silentLvl_def welcome_banner_def)

text \<open>
  C9, amended: a level that passes the start-up checks is a number from 0 to 2, and the
  banner is printed if and only if it is below 1; among the whole levels 0, 1 and 2 that
  is level 0 alone.
\<close>

theorem banner_below_one:
  assumes "check_silentLvl n = Inr lvl"
  shows "\<exists>x. lvl = Num x \<and> n = lvl \<and> 0 \<le> x \<and> x \<le> 2
           \<and> (welcome_banner lvl = [ConsoleLog (Lit welcome_text)]) = (x < 1)
           \<and> (welcome_banner lvl = []) = (1 \<le> x)
           \<and> (x \<in> {0, 1, 2} \<longrightarrow>
                (welcome_banner lvl = [ConsoleLog (Lit welcome_text)]) = (x = 0))"
  using assms
  by (cases n) (auto simp add: check_silentLvl_def welcome_banner_def split: if_splits)

text \<open>C9, amended, at levels 0 and 1.\<close>

theorem banner_below_one_witness:
  "check_silentLvl (Num 0) = Inr (Num 0)
   \<and> welcome_banner (Num 0) = [ConsoleLog (Lit welcome_text)]
   \<and> check_silentLvl (Num 1) = Inr (Num 1)
   \<and> welcome_banner (Num 1) = []"
proof -
  have h0: "check_silentLvl (Num 0) = Inr (Num 0)" and h1: "check_silentLvl (Num 1) = Inr (Num 1)"
    by (simp_all add: check_silentLvl_def)
  show ?thesis
    using h0 h1 banner_below_one [OF h0] banner_below_one [OF h1] by simp
qed

section \<open>Messages of the peer and results of commands\<close>

text \<open>
  C6. At level 2 an unsolicited message is printed as it came, whatever \<^verbatim>\<open>JSON.parse\<close>
  would make of it. Below level 2 a message that \<^verbatim>\<open>JSON.parse\<close> reads as an object with
  \<^verbatim>\<open>message\<close> "x" and \<^verbatim>\<open>level\<close> 3 is printed with the message in the client's error colour
  after the tag \<^verbatim>\<open>[Vendetta]\<close>.
\<close>

theorem discordLog_raw_or_coloured:
  "(silentLvl rt = Num 2 \<longrightarrow>
      discordLog rt data s =
        Returns (emit [ConsoleLog (Cat (Lit (if isPrompting s then newline else [])) (Lit data))] s))
   \<and> (js_less (silentLvl rt) (Num 2) \<and> JSON_parse rt data = Inr (JObj kvs)
        \<and> map_of kvs ''message'' = Some (JStr ''x'')
        \<and> map_of kvs ''level'' = Some (JNum (Num 3)) \<longrightarrow>
      discordLog rt data s =
        Returns (emit [ConsoleLog (Cat (Lit (if isPrompting s then newline else []))
                         (Cat (Styled Cyan (Lit ''[Vendetta] ''))
                            (Styled Red (Val (JStr ''x'')))))] s))"
proof (intro conjI impI)
  assume "silentLvl rt = Num 2"
  then show "discordLog rt data s =
        Returns (emit [ConsoleLog (Cat (Lit (if isPrompting s then newline else [])) (Lit data))] s)"
    by (simp add: discordLog_def safeLog_def)
next
  assume a: "js_less (silentLvl rt) (Num 2) \<and> JSON_parse rt data = Inr (JObj kvs)
        \<and> map_of kvs ''message'' = Some (JStr ''x'')
        \<and> map_of kvs ''level'' = Some (JNum (Num 3))"
  then have "silentLvl rt \<noteq> Num 2"
    using guard_not_two by blast
  moreover have "discordColorise (JSON_parse rt) data
      = Inr (Cat (Styled Cyan (Lit ''[Vendetta] '')) (Styled Red (Val (JStr ''x''))))"
    using a by (simp add: discordColorise_def property_def level_colour_def colorise_def)
  ultimately show "discordLog rt data s =
        Returns (emit [ConsoleLog (Cat (Lit (if isPrompting s then newline else []))
                         (Cat (Styled Cyan (Lit ''[Vendetta] ''))
                            (Styled Red (Val (JStr ''x'')))))] s)"
    by (simp add: discordLog_def safeLog_def)
qed

text \<open>C6, on the text \<^verbatim>\<open>{"message":"x","level":3}\<close> at level 2 and at level 1.\<close>

theorem discordLog_raw_or_coloured_witness:
  "discordLog (node_runtime (Num 2) None []) envelope_text initial =
     Returns (emit [ConsoleLog (Cat (Lit []) (Lit envelope_text))] initial)
   \<and> discordLog (node_runtime (Num 1) None [(envelope_text, envelope_value)])
         envelope_text initial =
     Returns (emit [ConsoleLog (Cat (Lit [])
                      (Cat (Styled Cyan (Lit ''[Vendetta] ''))
                         (Styled Red (Val (JStr ''x'')))))] initial)"
  using discordLog_raw_or_coloured [where rt = "node_runtime (Num 2) None []"
       and data = envelope_text and s = initial and kvs = "[]"]
    discordLog_raw_or_coloured
      [where rt = "node_runtime (Num 1) None [(envelope_text, envelope_value)]"
       and data = envelope_text and s = initial
       and kvs = "[(''message'', JStr ''x''), (''level'', JNum (Num 3))]"]
  by (simp add: node_runtime_def initial_def parse_table_def envelope_value_def)




section \<open>Lines of input\<close>

text \<open>
  C7. For a line of input that is empty or holds only white space, \<^verbatim>\<open>eval\<close> calls the
  callback of the line without arguments and does nothing else: nothing is sent on the
  websocket, the pending callback is what it was, and \<^verbatim>\<open>isPrompting\<close> is what it was.
\<close>

theorem blank_line_no_command:
  assumes "\<forall>c \<in> set input. js_space c"
  shows "\<exists>evs. calls (state_of (repl_eval rt input cb s)) = calls s @ evs
           \<and> ws_sends evs = []
           \<and> (cb, NoArgs) \<in> set (cb_calls evs)
           \<and> finishCallback (state_of (repl_eval rt input cb s)) = finishCallback s
           \<and> isPrompting (state_of (repl_eval rt input cb s)) = isPrompting s"
proof -
  have blank: "trim input = []" using assms by (simp add: trim_empty)
  obtain out1 where first:
    "calls (state_of (call_cb rt cb NoArgs s)) = calls s @ CallCb cb NoArgs # map Out out1"
    "finishCallback (state_of (call_cb rt cb NoArgs s)) = finishCallback s"
    "isPrompting (state_of (call_cb rt cb NoArgs s)) = isPrompting s"
    using call_cb_effect [of rt cb NoArgs s] by blast
  show ?thesis
  proof (cases "call_cb rt cb NoArgs s")
    case (Returns s1)
    then have "repl_eval rt input cb s = Returns s1" by (simp add: repl_eval_def blank)
    then show ?thesis using first Returns by (simp add: ws_sends_Out cb_calls_Out)
  next
    case (Throws e s1)
    then have r: "repl_eval rt input cb s = call_cb rt cb (Failed e) s1"
      by (simp add: repl_eval_def blank)
    obtain out2 where second:
      "calls (state_of (call_cb rt cb (Failed e) s1))
         = calls s1 @ CallCb cb (Failed e) # map Out out2"
      "finishCallback (state_of (call_cb rt cb (Failed e) s1)) = finishCallback s1"
      "isPrompting (state_of (call_cb rt cb (Failed e) s1)) = isPrompting s1"
      using call_cb_effect [of rt cb "Failed e" s1] by blast
    show ?thesis using first second Throws r
      by (simp add: ws_sends_Out ws_sends_append cb_calls_Out cb_calls_append)
  qed
qed

text \<open>C7, on a line of two spaces typed at a visible prompt.\<close>

theorem blank_line_no_command_witness:
  "list_all js_space ''  ''
   \<and> state_of (repl_eval (node_runtime (Num 0) None []) ''  '' 0
        \<lparr>isPrompting = True, finishCallback = None, calls = []\<rparr>)
     = \<lparr>isPrompting = True, finishCallback = None,
        calls = [CallCb 0 NoArgs, Out DisplayPrompt]\<rparr>"
proof -
  have h: "\<forall>c \<in> set ''  ''. js_space c" by (simp add: js_space_def)
  show ?thesis
    using h blank_line_no_command [OF h, of "node_runtime (Num 0) None []" 0
        "\<lparr>isPrompting = True, finishCallback = None, calls = []\<rparr>"]
    by (simp add: list_all_iff repl_eval_def trim_def js_space_def call_cb_def node_runtime_def
        repl_finish_def emit_def)
qed

section \<open>Opening and closing the connection\<close>

text \<open>
  C8. When the on-connect path is set, the file is readable and its contents \<open>code\<close> are
  not empty, no warning is printed at start-up, the connection handler sends \<open>code\<close> as
  its last call and sends nothing else, and \<open>code\<close> is the first payload sent on the
  connection, whatever events follow.
\<close>

theorem onConnected_sent_first:
  assumes "path \<noteq> []" and "files path = Some code" and "code \<noteq> []"
    and "load_onConnectedCode (Some path) files = Loaded (onConnectedCode rt) warned"
  shows "warned = []
    \<and> (\<exists>notice. calls (state_of (wss_on_connection rt s))
          = calls s @ map Out notice @ [ReplStart, WsSend code])
    \<and> (\<exists>rest. ws_sends (calls (state_of (connection rt evs))) = code # rest)"
proof -
  have cfg: "onConnectedCode rt = Some code" and w: "warned = []"
    using assms by (simp_all add: load_onConnectedCode_def)
  let ?m = "Lit ''Connected to Discord over websocket, starting debug session''"
  have conn: "\<exists>notice. calls (state_of (wss_on_connection rt u))
          = calls u @ map Out notice @ [ReplStart, WsSend code]" for u
  proof -
    obtain out s1 where g:
      "(if js_less (silentLvl rt) (Num 2) then debuggerLog rt ?m u else Returns u) = Returns s1"
      "calls s1 = calls u @ map Out out"
      using guarded_log_effect [of rt ?m u] by blast
    have "calls (state_of (wss_on_connection rt u))
        = calls u @ map Out out @ [ReplStart, WsSend code]"
      unfolding wss_on_connection_def g(1)
      using g(2) cfg assms(3) by (simp add: Let_def ws_send_def split: option.splits)
    then show ?thesis by blast
  qed
  obtain notice where n: "calls (state_of (wss_on_connection rt initial))
          = map Out notice @ [ReplStart, WsSend code]"
    using conn [of initial] by (auto simp add: initial_def)
  have "\<exists>rest. ws_sends (calls (state_of (connection rt evs))) = code # rest"
  proof (cases "wss_on_connection rt initial")
    case (Returns s1)
    obtain ext where "calls (state_of (run rt evs s1)) = calls s1 @ ext"
      using run_extends by blast
    then have "ws_sends (calls (state_of (connection rt evs))) = code # ws_sends ext"
      using Returns n by (simp add: connection_def ws_sends_append ws_sends_Out)
    then show ?thesis by blast
  next
    case (Throws e s1)
    then have "ws_sends (calls (state_of (connection rt evs))) = code # ws_sends []"
      using n by (simp add: connection_def ws_sends_append ws_sends_Out)
    then show ?thesis by blast
  qed
  then show ?thesis using w conn by blast
qed

text \<open>
  C8, with the file \<^verbatim>\<open>init.js\<close> holding \<^verbatim>\<open>init()\<close>: it is sent once, before the request for
  the line \<^verbatim>\<open>1+1\<close>.
\<close>

theorem onConnected_sent_first_witness:
  "''init.js'' \<noteq> []
   \<and> [''init.js'' \<mapsto> ''init()''] ''init.js'' = Some ''init()''
   \<and> ''init()'' \<noteq> []
   \<and> load_onConnectedCode (Some ''init.js'') [''init.js'' \<mapsto> ''init()'']
       = Loaded (Some ''init()'') []
   \<and> ws_sends (calls (state_of
        (connection (node_runtime (Num 2) (Some ''init()'') []) [Line ''1+1'' 0])))
       = [''init()'', wire stringify_plain ''1+1'']"
proof -
  let ?rt = "node_runtime (Num 2) (Some ''init()'') []"
  let ?files = "[''init.js'' \<mapsto> ''init()'']"
  have p: "''init.js'' \<noteq> []" and c: "''init()'' \<noteq> []" by simp_all
  have f: "?files ''init.js'' = Some ''init()''" by simp
  have l: "load_onConnectedCode (Some ''init.js'') ?files = Loaded (onConnectedCode ?rt) []"
    by (simp add: load_onConnectedCode_def node_runtime_def)
  have run1: "ws_sends (calls (state_of (connection ?rt [Line ''1+1'' 0])))
       = [''init()'', wire stringify_plain ''1+1'']"
    by (simp add: connection_def wss_on_connection_def node_runtime_def initial_def Let_def
        repl_eval_def trim_def js_space_def ws_send_def)
  show ?thesis
    using onConnected_sent_first [OF p f c l, of initial "[Line ''1+1'' 0]"] p f c l run1
    by (simp add: node_runtime_def)
qed

text \<open>
  C5. When the websocket closes while a callback is pending, the close handler returns
  after calling \<^verbatim>\<open>rl.close()\<close>, with \<^verbatim>\<open>isPrompting\<close> false; neither it nor the handler of
  the REPL's \<^verbatim>\<open>close\<close> event, however often that runs afterwards, calls a callback.
\<close>

theorem socket_close_while_awaiting:
  assumes "finishCallback s = Some cb"
  shows "\<exists>s' ext. run rt (SocketClose # replicate n PromptClose) s = Returns s'
           \<and> calls s' = calls s @ ext
           \<and> RlClose \<in> set ext
           \<and> cb_calls ext = []
           \<and> \<not> isPrompting s'"
proof -
  obtain notice s1 where c: "ws_on_close rt s = Returns s1"
      "calls s1 = calls s @ map Out notice @ [RlClose]" "\<not> isPrompting s1"
    using ws_on_close_effect [of rt s] by blast
  have later: "\<exists>s' out. run rt (replicate k PromptClose) u = Returns s'
           \<and> calls s' = calls u @ map Out out \<and> isPrompting s' = isPrompting u" for k u
  proof (induction k arbitrary: u)
    case 0
    have "run rt (replicate 0 PromptClose) u = Returns u
        \<and> calls u = calls u @ map Out [] \<and> isPrompting u = isPrompting u"
      by simp
    then show ?case by blast
  next
    case (Suc k)
    obtain o1 u1 where a: "rl_on_close rt u = Returns u1" "calls u1 = calls u @ map Out o1"
        "isPrompting u1 = isPrompting u"
      using rl_on_close_effect [of rt u] by blast
    obtain u2 o2 where b: "run rt (replicate k PromptClose) u1 = Returns u2"
        "calls u2 = calls u1 @ map Out o2" "isPrompting u2 = isPrompting u1"
      using Suc.IH [of u1] by blast
    have "run rt (replicate (Suc k) PromptClose) u = Returns u2
        \<and> calls u2 = calls u @ map Out (o1 @ o2) \<and> isPrompting u2 = isPrompting u"
      using a b by simp
    then show ?case by blast
  qed
  obtain s2 out where l: "run rt (replicate n PromptClose) s1 = Returns s2"
      "calls s2 = calls s1 @ map Out out" "isPrompting s2 = isPrompting s1"
    using later [of n s1] by blast
  have "run rt (SocketClose # replicate n PromptClose) s = Returns s2"
    using c l by simp
  moreover have "calls s2 = calls s @ (map Out notice @ [RlClose] @ map Out out)"
    using c l by simp
  moreover have "cb_calls (map Out notice @ [RlClose] @ map Out out) = []"
    by (simp add: cb_calls_append cb_calls_Out)
  moreover have "RlClose \<in> set (map Out notice @ [RlClose] @ map Out out)" by simp
  ultimately show ?thesis using l c by blast
qed

text \<open>
  C5, at level 1, on the websocket closing while the callback of a line is pending and
  the REPL's \<^verbatim>\<open>close\<close> event following.
\<close>

theorem socket_close_while_awaiting_witness:
  "finishCallback \<lparr>isPrompting = False, finishCallback = Some (0::nat),
                   calls = [ReplStart, WsSend ''x'']\<rparr> = Some 0
   \<and> run (node_runtime (Num 1) None []) [SocketClose, PromptClose]
       \<lparr>isPrompting = False, finishCallback = Some 0, calls = [ReplStart, WsSend ''x'']\<rparr>
     = Returns \<lparr>isPrompting = False, finishCallback = Some 0,
         calls = [ReplStart, WsSend ''x'',
                  Out (ConsoleLog (Cat (Lit []) (Cat (Styled MagentaBold (Lit ''[Debugger] ''))
                                                  (Lit ''Websocket has been closed'')))),
                  RlClose,
                  Out (ConsoleLog (Cat (Lit []) (Cat (Styled MagentaBold (Lit ''[Debugger] ''))
                                    (Lit ''Closing debugger, press Ctrl+C to exit''))))]\<rparr>"
proof -
  let ?s = "\<lparr>isPrompting = False, finishCallback = Some (0::nat),
             calls = [ReplStart, WsSend ''x'']\<rparr>"
  have h: "finishCallback ?s = Some 0" by simp
  show ?thesis
    using h socket_close_while_awaiting [OF h, of "node_runtime (Num 1) None []" "Suc 0"]
    by (simp add: ws_on_close_def rl_on_close_def debuggerLog_def node_runtime_def Let_def
        emit_def safeLog_def debuggerColorise_def colorise_def)
qed

section \<open>Inbound messages\<close>

text \<open>
  Whatever the state, a message that arrives while no callback is pending is passed to
  \<open>discordLog\<close> and to no callback; if \<open>discordLog\<close> throws, the error is printed as a
  debugger error; then the prompt is redrawn, with \<^verbatim>\<open>isPrompting\<close> true.
\<close>

lemma idle_message_effect:
  assumes "finishCallback s = None"
  shows "ws_on_message rt data s =
           \<lparr>isPrompting = True, finishCallback = None,
            calls = calls (state_of (discordLog rt data s))
                    @ map Out ((case thrown (discordLog rt data s) of
                                  None \<Rightarrow> []
                                | Some e \<Rightarrow> fst (debuggerError e False (isPrompting s)))
                               @ [DisplayPrompt])\<rparr>"
proof -
  have d:
      "finishCallback (state_of (discordLog rt data s)) = finishCallback s"
      "isPrompting (state_of (discordLog rt data s)) = isPrompting s"
    using discordLog_effect [of rt data s] by blast+
  show ?thesis
    using assms d
    by (cases "discordLog rt data s") (simp_all add: ws_on_message_def emit_def Let_def)
qed

lemma message_shows_prompt: "isPrompting (ws_on_message rt data s)"
  by (simp add: ws_on_message_def emit_def Let_def)

text \<open>
  While the websocket is open and \<^verbatim>\<open>ws.send\<close> does not throw, the prompt is visible
  whenever no callback is pending: the connection handler leaves it visible, only a line
  that is sent hides it, and that line makes its callback pending.
\<close>

lemma connected_prompting:
  assumes "\<forall>cs payload. send_fault rt cs payload = None"
  shows "\<exists>s'. wss_on_connection rt s = Returns s' \<and> isPrompting s'"
proof -
  let ?m = "Lit ''Connected to Discord over websocket, starting debug session''"
  obtain s1 where g:
    "(if js_less (silentLvl rt) (Num 2) then debuggerLog rt ?m s else Returns s) = Returns s1"
    using guarded_log_effect [of rt ?m s] by blast
  show ?thesis
    unfolding wss_on_connection_def g
    using assms by (simp add: Let_def ws_send_def split: option.splits)
qed

lemma step_keeps_prompt:
  assumes "\<forall>cs payload. send_fault rt cs payload = None"
    and "ev \<noteq> SocketClose"
    and "step rt ev s = Returns s'"
    and "finishCallback s = None \<longrightarrow> isPrompting s"
  shows "finishCallback s' = None \<longrightarrow> isPrompting s'"
proof (cases ev)
  case (Line input cb)
  show ?thesis
  proof (cases "trim input = []")
    case True
    show ?thesis
    proof (cases "call_cb rt cb NoArgs s")
      case (Returns s1)
      then have "s' = s1" using assms(3) Line True by (simp add: repl_eval_def)
      then show ?thesis using call_cb_effect [of rt cb NoArgs s] Returns assms(4) by auto
    next
      case (Throws e s1)
      then have "call_cb rt cb (Failed e) s1 = Returns s'"
        using assms(3) Line True by (simp add: repl_eval_def)
      then show ?thesis
        using call_cb_effect [of rt cb NoArgs s] call_cb_effect [of rt cb "Failed e" s1]
          Throws assms(4)
        by auto
    qed
  next
    case False
    then have "finishCallback s' \<noteq> None"
      using assms(1,3) Line by (auto simp add: repl_eval_def ws_send_def Let_def)
    then show ?thesis by blast
  qed
next
  case (Message data)
  then have "s' = ws_on_message rt data s" using assms(3) by simp
  then show ?thesis using message_shows_prompt [of rt data s] by simp
next
  case SocketClose
  then show ?thesis using assms(2) by simp
next
  case PromptClose
  then show ?thesis using assms(3,4) rl_on_close_effect [of rt s] by auto
qed

lemma run_keeps_prompt:
  assumes "\<forall>cs payload. send_fault rt cs payload = None"
    and "SocketClose \<notin> set evs"
    and "run rt evs s = Returns s'"
    and "finishCallback s = None \<longrightarrow> isPrompting s"
  shows "finishCallback s' = None \<longrightarrow> isPrompting s'"
  using assms(2,3,4)
proof (induction evs arbitrary: s)
  case Nil
  then show ?case by simp
next
  case (Cons ev evs)
  show ?case
  proof (cases "step rt ev s")
    case (Returns s1)
    have "ev \<noteq> SocketClose" using Cons.prems(1) by auto
    then have inv: "finishCallback s1 = None \<longrightarrow> isPrompting s1"
      using step_keeps_prompt [OF assms(1) _ Returns] Cons.prems(3) by blast
    have rest: "SocketClose \<notin> set evs" using Cons.prems(1) by simp
    have runs: "run rt evs s1 = Returns s'" using Cons.prems(2) Returns by simp
    show ?thesis by (rule Cons.IH [OF rest runs inv])
  next
    case (Throws e s1)
    then show ?thesis using Cons.prems(2) by simp
  qed
qed

text \<open>
  C4. On a connection whose \<^verbatim>\<open>ws.send\<close> does not throw and whose websocket has not closed,
  a message that arrives while no callback is pending is passed to \<open>discordLog\<close> for
  display and to no callback; no callback becomes pending, and \<^verbatim>\<open>isPrompting\<close> is after the
  handling what it was before.
\<close>

theorem idle_message_keeps_prompt:
  assumes "\<forall>cs payload. send_fault rt cs payload = None"
    and "SocketClose \<notin> set evs"
    and "connection rt evs = Returns s"
    and "finishCallback s = None"
  shows "ws_on_message rt data s =
           \<lparr>isPrompting = isPrompting s, finishCallback = None,
            calls = calls (state_of (discordLog rt data s))
                    @ map Out ((case thrown (discordLog rt data s) of
                                  None \<Rightarrow> []
                                | Some e \<Rightarrow> fst (debuggerError e False (isPrompting s)))
                               @ [DisplayPrompt])\<rparr>
    \<and> cb_calls (calls (ws_on_message rt data s)) = cb_calls (calls s)
    \<and> isPrompting (ws_on_message rt data s) = isPrompting s"
proof -
  obtain s0 where c: "wss_on_connection rt initial = Returns s0" "isPrompting s0"
    using connected_prompting [OF assms(1), of initial] by blast
  have "run rt evs s0 = Returns s"
    using assms(3) c(1) by (simp add: connection_def)
  then have "finishCallback s = None \<longrightarrow> isPrompting s"
    using run_keeps_prompt [OF assms(1,2), of s0 s] c(2) by blast
  then have visible: "isPrompting s = True" using assms(4) by simp
  have eq: "ws_on_message rt data s =
           \<lparr>isPrompting = True, finishCallback = None,
            calls = calls (state_of (discordLog rt data s))
                    @ map Out ((case thrown (discordLog rt data s) of
                                  None \<Rightarrow> []
                                | Some e \<Rightarrow> fst (debuggerError e False (isPrompting s)))
                               @ [DisplayPrompt])\<rparr>"
    by (rule idle_message_effect [OF assms(4)])
  obtain out where d: "calls (state_of (discordLog rt data s)) = calls s @ map Out out"
    using discordLog_effect [of rt data s] by blast
  have "cb_calls (calls (ws_on_message rt data s)) = cb_calls (calls s)"
    unfolding eq using d by (simp add: cb_calls_append cb_calls_Out del: map_append)
  moreover have "isPrompting (ws_on_message rt data s) = isPrompting s"
    unfolding eq using visible by simp
  ultimately show ?thesis using eq visible by simp
qed

text \<open>
  C4, at level 2: after the line \<^verbatim>\<open>1+1\<close> has been answered by the text
  \<^verbatim>\<open>{"message":"x","level":3}\<close> no callback is pending and the prompt is visible; the text
  \<^verbatim>\<open>hello\<close> that arrives then is printed as it came and the prompt stays visible.
\<close>

theorem idle_message_keeps_prompt_witness:
  "(\<forall>cs payload. send_fault (node_runtime (Num 2) None [(envelope_text, envelope_value)])
        cs payload = None)
   \<and> SocketClose \<notin> set [Line ''1+1'' (0::nat), Message envelope_text]
   \<and> connection (node_runtime (Num 2) None [(envelope_text, envelope_value)])
        [Line ''1+1'' 0, Message envelope_text] =
     Returns \<lparr>isPrompting = True, finishCallback = None,
              calls = [ReplStart, WsSend (wire stringify_plain ''1+1''),
                       CallCb 0 (Result envelope_text),
                       Out (ReplWrite (Cat (Cat (Styled Cyan (Lit ''[Vendetta] ''))
                                              (Styled Red (Val (JStr ''x''))))
                                         (Lit newline))),
                       Out DisplayPrompt,
                       Out DisplayPrompt]\<rparr>
   \<and> ws_on_message (node_runtime (Num 2) None [(envelope_text, envelope_value)]) ''hello''
        \<lparr>isPrompting = True, finishCallback = None,
              calls = [ReplStart, WsSend (wire stringify_plain ''1+1''),
                       CallCb 0 (Result envelope_text),
                       Out (ReplWrite (Cat (Cat (Styled Cyan (Lit ''[Vendetta] ''))
                                              (Styled Red (Val (JStr ''x''))))
                                         (Lit newline))),
                       Out DisplayPrompt,
                       Out DisplayPrompt]\<rparr>
     = \<lparr>isPrompting = True, finishCallback = None,
              calls = [ReplStart, WsSend (wire stringify_plain ''1+1''),
                       CallCb 0 (Result envelope_text),
                       Out (ReplWrite (Cat (Cat (Styled Cyan (Lit ''[Vendetta] ''))
                                              (Styled Red (Val (JStr ''x''))))
                                         (Lit newline))),
                       Out DisplayPrompt,
                       Out DisplayPrompt,
                       Out (ConsoleLog (Cat (Lit newline) (Lit ''hello''))),
                       Out DisplayPrompt]\<rparr>"
proof -
  let ?rt = "node_runtime (Num 2) None [(envelope_text, envelope_value)]"
  let ?pending = "\<lparr>isPrompting = False, finishCallback = Some (0::nat),
              calls = [ReplStart, WsSend (wire stringify_plain ''1+1'')]\<rparr>"
  let ?s = "\<lparr>isPrompting = True, finishCallback = None,
              calls = [ReplStart, WsSend (wire stringify_plain ''1+1''),
                       CallCb (0::nat) (Result envelope_text),
                       Out (ReplWrite (Cat (Cat (Styled Cyan (Lit ''[Vendetta] ''))
                                              (Styled Red (Val (JStr ''x''))))
                                         (Lit newline))),
                       Out DisplayPrompt,
                       Out DisplayPrompt]\<rparr>"
  have nofault: "\<forall>cs payload. send_fault ?rt cs payload = None"
    by (simp add: node_runtime_def)
  have open_socket: "SocketClose \<notin> set [Line ''1+1'' (0::nat), Message envelope_text]"
    by simp
  have sent: "connection ?rt [Line ''1+1'' 0] = Returns ?pending"
    by (rule line_sent)
  have answered: "ws_on_message ?rt envelope_text ?pending = ?s"
    by (simp add: ws_on_message_def call_cb_def emit_def Let_def
        node_runtime_def repl_finish_def writer_def discordColorise_def parse_table_def
        colorise_def envelope_value_def property_def level_colour_def)
  have reached: "connection ?rt [Line ''1+1'' 0, Message envelope_text] = Returns ?s"
    using connection_then [OF sent, of "[Message envelope_text]"] answered by simp
  have idle: "finishCallback ?s = None" by simp
  show ?thesis
    using idle_message_keeps_prompt [OF nofault open_socket reached idle, of "''hello''"]
      nofault reached
    by (simp add: discordLog_def node_runtime_def safeLog_def emit_def)
qed

text \<open>
  C1 does not hold of the program: when the pending callback throws, the error is caught
  and printed as a debugger error, the handler returns and \<^verbatim>\<open>isPrompting\<close> is true, but the
  assignment that clears \<^verbatim>\<open>finishCallback\<close> stands after the call inside the \<^verbatim>\<open>try\<close> and is
  skipped: the callback stays pending.
\<close>

theorem reply_throws_slot_kept:
  assumes "finishCallback s = Some cb"
    and "callback rt cb (Result data) (isPrompting s) = (out, Some e)"
  shows "ws_on_message rt data s =
           \<lparr>isPrompting = True, finishCallback = Some cb,
            calls = calls s @ CallCb cb (Result data)
                    # map Out (out @ [safeLog (isPrompting s)
                                       (colorise (Lit ''Error'') ''Debugger'' (COLORS debugger error)),
                                     ConsoleError e, DisplayPrompt])\<rparr>"
  using assms by (simp add: ws_on_message_def call_cb_def emit_def Let_def debuggerError_def)

text \<open>
  C1, on the line \<^verbatim>\<open>1+1\<close> answered by the text \<^verbatim>\<open>oops\<close>, which is not JSON: the writer
  throws inside the REPL's callback, and callback 0 is still pending afterwards.
\<close>

theorem reply_throws_slot_kept_witness:
  "connection (node_runtime (Num 2) None []) [Line ''1+1'' 0] =
     Returns \<lparr>isPrompting = False, finishCallback = Some 0,
              calls = [ReplStart, WsSend (wire stringify_plain ''1+1'')]\<rparr>
   \<and> repl_finish (parse_table []) 0 (Result ''oops'') False
       = ([], Some (SyntaxError ''Unexpected token''))
   \<and> connection (node_runtime (Num 2) None []) [Line ''1+1'' 0, Message ''oops''] =
     Returns \<lparr>isPrompting = True, finishCallback = Some 0,
              calls = [ReplStart, WsSend (wire stringify_plain ''1+1''),
                       CallCb 0 (Result ''oops''),
                       Out (ConsoleLog (Cat (Lit [])
                              (Cat (Styled RedBold (Lit ''[Debugger] '')) (Lit ''Error'')))),
                       Out (ConsoleError (SyntaxError ''Unexpected token'')),
                       Out DisplayPrompt]\<rparr>"
proof -
  let ?rt = "node_runtime (Num 2) None []"
  let ?s = "\<lparr>isPrompting = False, finishCallback = Some (0::nat),
              calls = [ReplStart, WsSend (wire stringify_plain ''1+1'')]\<rparr>"
  have sent: "connection ?rt [Line ''1+1'' 0] = Returns ?s"
    by (rule line_sent)
  have cb: "callback ?rt 0 (Result ''oops'') (isPrompting ?s)
      = ([], Some (SyntaxError ''Unexpected token''))"
    by (simp add: node_runtime_def repl_finish_def writer_def discordColorise_def parse_table_def)
  have fin: "repl_finish (parse_table []) 0 (Result ''oops'') False
       = ([], Some (SyntaxError ''Unexpected token''))"
    by (simp add: repl_finish_def writer_def discordColorise_def parse_table_def)
  have "finishCallback ?s = Some 0" by simp
  from reply_throws_slot_kept [OF this cb]
  have "ws_on_message ?rt ''oops'' ?s =
     \<lparr>isPrompting = True, finishCallback = Some 0,
              calls = [ReplStart, WsSend (wire stringify_plain ''1+1''),
                       CallCb 0 (Result ''oops''),
                       Out (ConsoleLog (Cat (Lit [])
                              (Cat (Styled RedBold (Lit ''[Debugger] '')) (Lit ''Error'')))),
                       Out (ConsoleError (SyntaxError ''Unexpected token'')),
                       Out DisplayPrompt]\<rparr>"
    by (simp add: safeLog_def colorise_def)
  moreover have "connection ?rt [Line ''1+1'' 0, Message ''oops'']
      = Returns (ws_on_message ?rt ''oops'' ?s)"
    using connection_then [OF sent, of "[Message ''oops'']"] by simp
  ultimately show ?thesis using sent fin by simp
qed

text \<open>
  C2 does not hold of the program, by the same skipped assignment: a message that arrives
  while a callback is pending is passed to that callback once, but when the callback
  throws it stays pending, and the next message of the peer is passed to it as well.
\<close>

theorem stale_callback_gets_next_message:
  assumes "finishCallback s = Some cb"
    and "callback rt cb (Result d1) (isPrompting s) = (out, Some e)"
  shows "finishCallback (ws_on_message rt d1 s) = Some cb
    \<and> cb_calls (calls (ws_on_message rt d2 (ws_on_message rt d1 s)))
        = cb_calls (calls s) @ [(cb, Result d1), (cb, Result d2)]"
proof -
  have kept: "finishCallback (ws_on_message rt d1 s) = Some cb"
    using assms by (simp add: ws_on_message_def call_cb_def emit_def Let_def debuggerError_def)
  show ?thesis
    using kept pending_delivered_once [OF kept, of rt d2]
      pending_delivered_once [OF assms(1), of rt d1]
    by simp
qed

text \<open>
  C2, at level 2, on the line \<^verbatim>\<open>1+1\<close> answered by the text \<^verbatim>\<open>oops\<close> and followed by the
  unsolicited message \<^verbatim>\<open>{"message":"x","level":3}\<close>: the second message goes to callback 0
  and is written coloured by the REPL instead of being printed as it came.
\<close>

theorem stale_callback_gets_next_message_witness:
  "connection (node_runtime (Num 2) None [(envelope_text, envelope_value)])
       [Line ''1+1'' 0, Message ''oops'', Message envelope_text] =
     Returns \<lparr>isPrompting = True, finishCallback = None,
              calls = [ReplStart, WsSend (wire stringify_plain ''1+1''),
                       CallCb 0 (Result ''oops''),
                       Out (ConsoleLog (Cat (Lit [])
                              (Cat (Styled RedBold (Lit ''[Debugger] '')) (Lit ''Error'')))),
                       Out (ConsoleError (SyntaxError ''Unexpected token'')),
                       Out DisplayPrompt,
                       CallCb 0 (Result envelope_text),
                       Out (ReplWrite (Cat (Cat (Styled Cyan (Lit ''[Vendetta] ''))
                                              (Styled Red (Val (JStr ''x''))))
                                         (Lit newline))),
                       Out DisplayPrompt,
                       Out DisplayPrompt]\<rparr>
   \<and> cb_calls (calls (state_of
        (connection (node_runtime (Num 2) None [(envelope_text, envelope_value)])
           [Line ''1+1'' 0, Message ''oops'', Message envelope_text])))
      = [(0, Result ''oops''), (0, Result envelope_text)]"
proof -
  let ?rt = "node_runtime (Num 2) None [(envelope_text, envelope_value)]"
  let ?s = "\<lparr>isPrompting = False, finishCallback = Some (0::nat),
              calls = [ReplStart, WsSend (wire stringify_plain ''1+1'')]\<rparr>"
  have differ: "''oops'' \<noteq> envelope_text" by (simp add: envelope_text_def)
  have sent: "connection ?rt [Line ''1+1'' 0] = Returns ?s"
    by (rule line_sent)
  have cb: "callback ?rt 0 (Result ''oops'') (isPrompting ?s)
      = ([], Some (SyntaxError ''Unexpected token''))"
    using differ
    by (simp add: node_runtime_def repl_finish_def writer_def discordColorise_def parse_table_def)
  have pending: "finishCallback ?s = Some 0" by simp
  have both: "connection ?rt [Line ''1+1'' 0, Message ''oops'', Message envelope_text]
      = Returns (ws_on_message ?rt envelope_text (ws_on_message ?rt ''oops'' ?s))"
    using connection_then [OF sent, of "[Message ''oops'', Message envelope_text]"] by simp
  have final: "ws_on_message ?rt envelope_text (ws_on_message ?rt ''oops'' ?s) =
     \<lparr>isPrompting = True, finishCallback = None,
              calls = [ReplStart, WsSend (wire stringify_plain ''1+1''),
                       CallCb 0 (Result ''oops''),
                       Out (ConsoleLog (Cat (Lit [])
                              (Cat (Styled RedBold (Lit ''[Debugger] '')) (Lit ''Error'')))),
                       Out (ConsoleError (SyntaxError ''Unexpected token'')),
                       Out DisplayPrompt,
                       CallCb 0 (Result envelope_text),
                       Out (ReplWrite (Cat (Cat (Styled Cyan (Lit ''[Vendetta] ''))
                                              (Styled Red (Val (JStr ''x''))))
                                         (Lit newline))),
                       Out DisplayPrompt,
                       Out DisplayPrompt]\<rparr>"
    using differ
    by (simp add: ws_on_message_def call_cb_def emit_def Let_def debuggerError_def
        node_runtime_def repl_finish_def writer_def discordColorise_def parse_table_def
        safeLog_def colorise_def envelope_value_def property_def level_colour_def)
  show ?thesis
    using stale_callback_gets_next_message [OF pending cb, of envelope_text] both final
    by simp
qed

end
